theory Spec2Isabelle
  imports Main
begin

section \<open>The upload directory\<close>

text \<open>
  The middleware keeps every upload as two entries of the directory \<open>TmpDir\<close>: the file
  \<open>id\<close> with the bytes received so far and the empty file \<open>id.incomplete\<close>, present as
  long as the upload is not complete. The directory is modelled as a map from entry names
  (the last argument of \<open>filepath.Join(m.TmpDir, ...)\<close>) to file contents; bytes are
  \<open>char\<close>s, which are 8 bits wide.

  Every call of the \<open>os\<close> package can fail for reasons the program does not control
  (permissions, a full disk, a name that resolves to a directory). The field \<open>faults\<close>
  says which calls do; such a call returns an error other than \<open>os.ErrNotExist\<close>.
  The field \<open>trace\<close> records the calls made, in order.
\<close>

datatype error = ErrNotExist | ErrOther

datatype fs_op =
    OpOpen string
  | OpSeek string
  | OpStat string
  | OpWriteFile string
  | OpWrite string
  | OpRemove string
  | OpClose string

record fs =
  files :: "string \<rightharpoonup> string"
  faults :: "fs_op \<Rightarrow> bool"
  trace :: "fs_op list"

text \<open>An open \<open>*os.File\<close>: the entry it refers to and the position of the next write.\<close>

record handle =
  hname :: string
  hpos :: nat

definition log_op :: "fs_op \<Rightarrow> fs \<Rightarrow> fs" where
  "log_op op s = s\<lparr>trace := trace s @ [op]\<rparr>"

text \<open>
  \<open>os.OpenFile(name, os.O_WRONLY, 0o644)\<close> when \<open>create\<close> is false and
  \<open>os.OpenFile(name, os.O_WRONLY|os.O_CREATE, 0o644)\<close> when it is true. Neither
  \<open>O_EXCL\<close> nor \<open>O_TRUNC\<close> is passed: an existing file is opened as it is, at position 0.
\<close>

definition os_OpenFile :: "fs \<Rightarrow> string \<Rightarrow> bool \<Rightarrow> fs \<times> handle option \<times> error option" where
  "os_OpenFile s name create =
     (let s1 = log_op (OpOpen name) s in
      if faults s (OpOpen name) then (s1, None, Some ErrOther)
      else case files s name of
             Some bs \<Rightarrow> (s1, Some \<lparr>hname = name, hpos = 0\<rparr>, None)
           | None \<Rightarrow>
               if create
               then (s1\<lparr>files := (files s1)(name \<mapsto> [])\<rparr>, Some \<lparr>hname = name, hpos = 0\<rparr>, None)
               else (s1, None, Some ErrNotExist))"

text \<open>
  \<open>file.Seek(0, io.SeekEnd)\<close>: moves the position to the end of the file and returns the
  size, an \<open>int64\<close>. File sizes stay below \<open>2^63\<close> on every file system, so the size is
  an \<open>int\<close> here. On a nil file or an error the result is \<open>(0, err)\<close>.
\<close>

definition file_SeekEnd :: "fs \<Rightarrow> handle option \<Rightarrow> fs \<times> handle option \<times> int \<times> error option" where
  "file_SeekEnd s file =
     (case file of
        None \<Rightarrow> (s, None, 0, Some ErrOther)
      | Some f \<Rightarrow>
          (let s1 = log_op (OpSeek (hname f)) s in
           if faults s (OpSeek (hname f)) then (s1, file, 0, Some ErrOther)
           else case files s (hname f) of
                  None \<Rightarrow> (s1, file, 0, Some ErrOther)
                | Some bs \<Rightarrow> (s1, Some (f\<lparr>hpos := length bs\<rparr>), int (length bs), None)))"

text \<open>\<open>os.Stat(name)\<close>, of which the program uses the error only.\<close>

definition os_Stat :: "fs \<Rightarrow> string \<Rightarrow> fs \<times> error option" where
  "os_Stat s name =
     (let s1 = log_op (OpStat name) s in
      if faults s (OpStat name) then (s1, Some ErrOther)
      else case files s name of
             None \<Rightarrow> (s1, Some ErrNotExist)
           | Some bs \<Rightarrow> (s1, None))"

text \<open>\<open>os.WriteFile(name, nil, 0o644)\<close>: creates the file or truncates it, and writes nothing.\<close>

definition os_WriteFile :: "fs \<Rightarrow> string \<Rightarrow> fs \<times> error option" where
  "os_WriteFile s name =
     (let s1 = log_op (OpWriteFile name) s in
      if faults s (OpWriteFile name) then (s1, Some ErrOther)
      else (s1\<lparr>files := (files s1)(name \<mapsto> [])\<rparr>, None))"

text \<open>\<open>os.Remove(name)\<close>: removing a file that is not there is an error.\<close>

definition os_Remove :: "fs \<Rightarrow> string \<Rightarrow> fs \<times> error option" where
  "os_Remove s name =
     (let s1 = log_op (OpRemove name) s in
      if faults s (OpRemove name) then (s1, Some ErrOther)
      else case files s name of
             None \<Rightarrow> (s1, Some ErrNotExist)
           | Some bs \<Rightarrow> (s1\<lparr>files := (files s1)(name := None)\<rparr>, None))"

text \<open>\<open>file.Close()\<close>, as deferred by the handlers; its error is dropped.\<close>

definition file_Close :: "fs \<Rightarrow> handle option \<Rightarrow> fs" where
  "file_Close s file = (case file of None \<Rightarrow> s | Some f \<Rightarrow> log_op (OpClose (hname f)) s)"

text \<open>
  Writing \<open>data\<close> at position \<open>pos\<close> of a file with contents \<open>old\<close>: the bytes before
  \<open>pos\<close> stay (a gap is filled with zero bytes), then comes \<open>data\<close>, then what \<open>old\<close>
  has beyond the end of \<open>data\<close>.
\<close>

definition write_at :: "nat \<Rightarrow> string \<Rightarrow> string \<Rightarrow> string" where
  "write_at pos data old =
     take pos old @ replicate (pos - length old) (CHR 0x00) @ data @ drop (pos + length data) old"

section \<open>Requests and responses\<close>

text \<open>\<open>http.Header\<close>: a map from canonical header names to lists of values.\<close>

type_synonym header = "string \<rightharpoonup> string list"

definition Header_Get :: "header \<Rightarrow> string \<Rightarrow> string" where
  "Header_Get h key = (case h key of None \<Rightarrow> [] | Some [] \<Rightarrow> [] | Some (v # vs) \<Rightarrow> v)"

definition Header_Set :: "header \<Rightarrow> string \<Rightarrow> string \<Rightarrow> header" where
  "Header_Set h key v = h(key \<mapsto> [v])"

definition Header_Del :: "header \<Rightarrow> string \<Rightarrow> header" where
  "Header_Del h key = h(key := None)"

text \<open>
  What the handlers read of an \<open>*http.Request\<close>. The body is the bytes that reading
  \<open>r.Body\<close> yields; \<open>rbody_fails\<close> says that the read after them returns an error
  instead of \<open>io.EOF\<close> (the client went away).
\<close>

record request =
  rmethod :: string
  rpath :: string
  rhost :: string
  rtls :: bool
  rheader :: header
  rbody :: string
  rbody_fails :: bool

text \<open>
  An \<open>http.ResponseWriter\<close>: the header map the handler edits, the informational (1xx)
  responses sent so far, the status line of the final response with the headers sent along
  (fixed by the first \<open>WriteHeader\<close> with a code outside 1xx, or by the first \<open>Write\<close>),
  and the body written.
\<close>

record response =
  hdr :: header
  interim :: "(nat \<times> header) list"
  status :: "(nat \<times> header) option"
  wbody :: string

definition new_response :: response where
  "new_response = \<lparr>hdr = Map.empty, interim = [], status = None, wbody = []\<rparr>"

definition set_hdr :: "response \<Rightarrow> string \<Rightarrow> string \<Rightarrow> response" where
  "set_hdr w key v = w\<lparr>hdr := Header_Set (hdr w) key v\<rparr>"

definition del_hdr :: "response \<Rightarrow> string \<Rightarrow> response" where
  "del_hdr w key = w\<lparr>hdr := Header_Del (hdr w) key\<rparr>"

definition WriteHeader :: "response \<Rightarrow> nat \<Rightarrow> response" where
  "WriteHeader w code =
     (if status w \<noteq> None then w
      else if 100 \<le> code \<and> code \<le> 199 \<and> code \<noteq> 101
      then w\<lparr>interim := interim w @ [(code, hdr w)]\<rparr>
      else w\<lparr>status := Some (code, hdr w)\<rparr>)"

definition rw_Write :: "response \<Rightarrow> string \<Rightarrow> response" where
  "rw_Write w data =
     (let w1 = (if status w = None then WriteHeader w 200 else w)
      in w1\<lparr>wbody := wbody w1 @ data\<rparr>)"

text \<open>
  What the server does when a handler returns nil: a response whose status was never
  written goes out as \<open>200 OK\<close> with the headers set so far.
\<close>

definition finish :: "response \<Rightarrow> response" where
  "finish w = (if status w = None then WriteHeader w 200 else w)"

definition status_code :: "response \<Rightarrow> nat option" where
  "status_code w = map_option fst (status w)"

definition sent_header :: "response \<Rightarrow> string \<Rightarrow> string" where
  "sent_header w key = (case status w of None \<Rightarrow> [] | Some (c, h) \<Rightarrow> Header_Get h key)"

text \<open>The class of a status code is its first digit: 2 for the successful codes 200 to 299.\<close>

definition status_class :: "nat \<Rightarrow> nat" where
  "status_class code = code div 100"

section \<open>Numbers in headers\<close>

text \<open>
  \<open>strconv.Atoi\<close> on a platform whose \<open>int\<close> has 64 bits: an optional sign, then one or
  more decimal digits and nothing else; a value outside \<open>[-2^63, 2^63 - 1]\<close> is an error.
  \<open>None\<close> stands for a non-nil error, whose accompanying value the program never reads.
\<close>

definition is_digit :: "char \<Rightarrow> bool" where
  "is_digit c = (48 \<le> (of_char c :: nat) \<and> (of_char c :: nat) \<le> 57)"

definition digit_val :: "char \<Rightarrow> nat" where
  "digit_val c = of_char c - 48"

definition digits_val :: "string \<Rightarrow> nat" where
  "digits_val ds = foldl (\<lambda>n c. n * 10 + digit_val c) 0 ds"

definition Atoi :: "string \<Rightarrow> int option" where
  "Atoi s =
     (let neg = (case s of [] \<Rightarrow> False | c # cs \<Rightarrow> c = CHR ''-'');
          ds = (case s of [] \<Rightarrow> [] | c # cs \<Rightarrow> if c = CHR ''-'' \<or> c = CHR ''+'' then cs else s)
      in if ds = [] then None
         else if list_all is_digit ds
         then (let un = digits_val ds
               in if neg then (if un > 2 ^ 63 then None else Some (- int un))
                  else (if un \<ge> 2 ^ 63 then None else Some (int un)))
         else None)"

text \<open>\<open>strconv.FormatInt(i, 10)\<close>, which reads its digits off a table.\<close>

definition digit_char :: "nat \<Rightarrow> char" where
  "digit_char d = ''0123456789'' ! d"

function nat_dec :: "nat \<Rightarrow> string" where
  "nat_dec n = (if n < 10 then [digit_char n] else nat_dec (n div 10) @ [digit_char (n mod 10)])"
  by pat_completeness auto
termination
  by (relation "measure id") auto

declare nat_dec.simps [simp del]

definition FormatInt :: "int \<Rightarrow> string" where
  "FormatInt i = (if i < 0 then CHR ''-'' # nat_dec (nat (- i)) else nat_dec (nat i))"

section \<open>The middleware\<close>

definition InteropVersion :: string where
  "InteropVersion = ''4''"

definition IncompleteExt :: string where
  "IncompleteExt = ''.incomplete''"

text \<open>\<open>strings.Split(s, "/")\<close> for a one-byte separator; the result is never empty.\<close>

fun Split :: "string \<Rightarrow> char \<Rightarrow> string list" where
  "Split [] sep = [[]]"
| "Split (c # cs) sep =
     (if c = sep then [] # Split cs sep
      else (case Split cs sep of
              [] \<Rightarrow> [[c]]
            | seg # segs \<Rightarrow> (c # seg) # segs))"

definition setUploadHeaders :: "response \<Rightarrow> bool \<Rightarrow> int \<Rightarrow> response" where
  "setUploadHeaders w isComplete offset =
     (let w1 = (if isComplete then set_hdr w ''Upload-Complete'' ''?1''
                else set_hdr w ''Upload-Complete'' ''?0'')
      in set_hdr w1 ''Upload-Offset'' (FormatInt offset))"

definition getUploadComplete :: "request \<Rightarrow> bool" where
  "getUploadComplete r =
     (if Header_Get (rheader r) ''Upload-Complete'' = ''?1'' then True else False)"

definition getUploadOffset :: "request \<Rightarrow> int \<times> bool" where
  "getUploadOffset r =
     (case Atoi (Header_Get (rheader r) ''Upload-Offset'') of
        None \<Rightarrow> (0, False)
      | Some offset \<Rightarrow> (offset, True))"

definition HasSuffix :: "string \<Rightarrow> string \<Rightarrow> bool" where
  "HasSuffix s suffix =
     (length suffix \<le> length s \<and> drop (length s - length suffix) s = suffix)"

definition getUrl :: "request \<Rightarrow> string" where
  "getUrl r =
     (let protocol = (if rtls r then ''https'' else ''http'');
          path = (if \<not> HasSuffix (rpath r) ''/'' then rpath r @ ''/'' else rpath r)
      in protocol @ ''://'' @ rhost r @ path)"

text \<open>
  \<open>io.Copy(file, r.Body)\<close>: the bytes of the body are written at the position of the
  file, and the number written is returned. When reading the body ends in an error the
  bytes read before it have been written.
\<close>

definition io_Copy :: "fs \<Rightarrow> handle option \<Rightarrow> request \<Rightarrow> fs \<times> handle option \<times> int \<times> error option" where
  "io_Copy s file r =
     (case file of
        None \<Rightarrow> (s, None, 0, Some ErrOther)
      | Some f \<Rightarrow>
          (let s1 = log_op (OpWrite (hname f)) s in
           if faults s (OpWrite (hname f)) then (s1, file, 0, Some ErrOther)
           else case files s (hname f) of
                  None \<Rightarrow> (s1, file, 0, Some ErrOther)
                | Some old \<Rightarrow>
                    (let s2 = s1\<lparr>files := (files s1)(hname f \<mapsto> write_at (hpos f) (rbody r) old)\<rparr>;
                         f2 = f\<lparr>hpos := hpos f + length (rbody r)\<rparr>;
                         n = int (length (rbody r))
                     in (s2, Some f2, n, if rbody_fails r then Some ErrOther else None))))"

text \<open>
  \<open>loadUpload\<close> returns \<open>(file, exists, isComplete, offset, err)\<close>; the named results
  start as \<open>(nil, false, false, 0, nil)\<close>.
\<close>

definition loadUpload ::
  "fs \<Rightarrow> string \<Rightarrow> fs \<times> handle option \<times> bool \<times> bool \<times> int \<times> error option" where
  "loadUpload s uid =
     (case os_OpenFile s uid False of
        (s1, file, err) \<Rightarrow>
          if err = Some ErrNotExist then (s1, file, False, False, 0, None)
          else if err \<noteq> None then (s1, file, False, False, 0, err)
          else (case file_SeekEnd s1 file of
                  (s2, file2, offset, err2) \<Rightarrow>
                    if err2 \<noteq> None then (s2, file2, True, False, offset, err2)
                    else (case os_Stat s2 (uid @ IncompleteExt) of
                            (s3, err3) \<Rightarrow>
                              if err3 = Some ErrNotExist
                              then (s3, file2, True, True, offset, None)
                              else if err3 \<noteq> None
                              then (s3, file2, True, False, offset, err3)
                              else (s3, file2, True, False, offset, None))))"

text \<open>
  The handlers take the directory, the request and the response writer and return the
  directory, the response writer and the error they return (\<open>None\<close> is nil).
\<close>

definition UploadAppendingHandler :: "fs \<Rightarrow> request \<Rightarrow> response \<Rightarrow> fs \<times> response \<times> error option" where
  "UploadAppendingHandler s r w =
     (let uid = last (Split (rpath r) CHR ''/'') in
      case loadUpload s uid of
        (s1, file, exists, complete_server, offset_server, err) \<Rightarrow>
          if err \<noteq> None then (s1, w, err)
          else if \<not> exists
          then (s1, rw_Write (WriteHeader w 404) ''upload not found\<newline>'', None)
          else
            (let complete_client = \<not> getUploadComplete r in
             case getUploadOffset r of
               (offset_client, ok) \<Rightarrow>
                 if \<not> ok
                 then (file_Close s1 file,
                       rw_Write (WriteHeader w 400) ''invalid or missing Upload-Offset header\<newline>'',
                       None)
                 else if offset_server \<noteq> offset_client
                 then (file_Close s1 file,
                       rw_Write (WriteHeader (setUploadHeaders w complete_server offset_server) 409)
                         ''mismatching Upload-Offset value\<newline>'',
                       None)
                 else if complete_server
                 then (file_Close s1 file,
                       rw_Write (WriteHeader (setUploadHeaders w complete_server offset_server) 200)
                         ''upload is already complete\<newline>'',
                       None)
                 else
                   (case io_Copy s1 file r of
                      (s2, file2, n, err2) \<Rightarrow>
                        if err2 \<noteq> None then (file_Close s2 file2, w, err2)
                        else
                          (let offset_server2 = offset_server + n in
                           if complete_client
                           then (case os_Remove s2 (uid @ IncompleteExt) of
                                   (s3, err3) \<Rightarrow>
                                     if err3 \<noteq> None then (file_Close s3 file2, w, err3)
                                     else (file_Close s3 file2,
                                           WriteHeader (setUploadHeaders w True offset_server2) 201,
                                           None))
                           else (file_Close s2 file2,
                                 WriteHeader (setUploadHeaders w complete_server offset_server2) 201,
                                 None)))))"

text \<open>
  \<open>uploadId\<close> is the result of \<open>uuid.NewString()\<close>, which the handler draws itself; it is
  an argument here.
\<close>

definition UploadCreationHandler ::
  "string \<Rightarrow> fs \<Rightarrow> request \<Rightarrow> response \<Rightarrow> fs \<times> response \<times> error option" where
  "UploadCreationHandler uploadId s r w =
     (case os_OpenFile s uploadId True of
        (s1, file, err) \<Rightarrow>
          if err \<noteq> None then (s1, w, err)
          else
            (case os_WriteFile s1 (uploadId @ IncompleteExt) of
               (s2, err2) \<Rightarrow>
                 if err2 \<noteq> None then (file_Close s2 file, w, err2)
                 else
                   (let uploadUrl = getUrl r @ uploadId;
                        w1 = set_hdr w ''Location'' uploadUrl;
                        w2 = (if Header_Get (rheader r) ''Upload-Draft-Interop-Version'' = InteropVersion
                              then del_hdr
                                     (WriteHeader
                                        (set_hdr w1 ''Upload-Draft-Interop-Version'' InteropVersion) 104)
                                     ''Upload-Draft-Interop-Version''
                              else w1)
                    in case io_Copy s2 file r of
                         (s3, file3, n, err3) \<Rightarrow>
                           if err3 \<noteq> None then (file_Close s3 file3, w2, err3)
                           else
                             (case file_SeekEnd s3 file3 of
                                (s4, file4, offset, err4) \<Rightarrow>
                                  if err4 \<noteq> None then (file_Close s4 file4, w2, err4)
                                  else
                                    (let isComplete = getUploadComplete r in
                                     if isComplete
                                     then (case os_Remove s4 (uploadId @ IncompleteExt) of
                                             (s5, err5) \<Rightarrow>
                                               if err5 \<noteq> None then (file_Close s5 file4, w2, err5)
                                               else (file_Close s5 file4,
                                                     setUploadHeaders w2 isComplete offset, None))
                                     else (file_Close s4 file4,
                                           setUploadHeaders w2 isComplete offset, None))))))"

definition OffsetRetrievingHandler :: "fs \<Rightarrow> request \<Rightarrow> response \<Rightarrow> fs \<times> response \<times> error option" where
  "OffsetRetrievingHandler s r w =
     (let uid = last (Split (rpath r) CHR ''/'') in
      case loadUpload s uid of
        (s1, file, exists, isComplete, offset, err) \<Rightarrow>
          if err \<noteq> None then (s1, w, err)
          else if \<not> exists
          then (s1, rw_Write (WriteHeader w 404) ''upload not found\<newline>'', None)
          else (file_Close s1 file, WriteHeader (setUploadHeaders w isComplete offset) 204, None))"

definition cors_headers :: "response \<Rightarrow> response" where
  "cors_headers w =
     set_hdr
       (set_hdr
          (set_hdr
             (set_hdr w ''Access-Control-Allow-Origin'' ''*'')
             ''Access-Control-Allow-Methods'' ''POST, PATCH, HEAD, DELETE'')
          ''Access-Control-Allow-Headers'' ''*'')
       ''Access-Control-Expose-Headers''
       ''Upload-Draft-Interop-Version, Upload-Offset, Upload-Complete, Location''"

definition ServeHTTP ::
  "string \<Rightarrow> fs \<Rightarrow> request \<Rightarrow> response \<Rightarrow> fs \<times> response \<times> error option" where
  "ServeHTTP uploadId s r w0 =
     (let w = cors_headers w0 in
      if rmethod r = ''OPTIONS'' then (s, WriteHeader w 200, None)
      else if rmethod r = ''POST'' then UploadCreationHandler uploadId s r w
      else if rmethod r = ''HEAD'' then OffsetRetrievingHandler s r w
      else if rmethod r = ''PATCH'' then UploadAppendingHandler s r w
      else (s, WriteHeader w 405, None))"

text \<open>
  A whole exchange: \<open>ServeHTTP\<close> on a fresh response writer, and the server finishing
  the response when the handler returned nil.
\<close>

definition serve :: "string \<Rightarrow> fs \<Rightarrow> request \<Rightarrow> fs \<times> response \<times> error option" where
  "serve uploadId s r =
     (case ServeHTTP uploadId s r new_response of
        (s', w, err) \<Rightarrow> (s', if err = None then finish w else w, err))"

section \<open>Example states and requests\<close>

text \<open>
  A directory with one upload \<open>u1\<close> of three bytes that is not complete, the same
  directory after the upload was completed, and a directory with no upload at all.
\<close>

definition demo_fs :: fs where
  "demo_fs =
     \<lparr>files = [''u1'' \<mapsto> ''abc'', ''u1.incomplete'' \<mapsto> []], faults = (\<lambda>op. False), trace = []\<rparr>"

definition demo_fs_done :: fs where
  "demo_fs_done = \<lparr>files = [''u1'' \<mapsto> ''abc''], faults = (\<lambda>op. False), trace = []\<rparr>"

definition demo_fs_empty :: fs where
  "demo_fs_empty = \<lparr>files = Map.empty, faults = (\<lambda>op. False), trace = []\<rparr>"

definition demo_patch :: "header \<Rightarrow> string \<Rightarrow> request" where
  "demo_patch h b =
     \<lparr>rmethod = ''PATCH'', rpath = ''/files/u1'', rhost = ''example.org'', rtls = False,
      rheader = h, rbody = b, rbody_fails = False\<rparr>"

definition demo_post :: "header \<Rightarrow> string \<Rightarrow> request" where
  "demo_post h b =
     \<lparr>rmethod = ''POST'', rpath = ''/files'', rhost = ''example.org'', rtls = False,
      rheader = h, rbody = b, rbody_fails = False\<rparr>"

section \<open>Unfolding the model\<close>

lemmas fs_defs = os_OpenFile_def file_SeekEnd_def os_Stat_def os_WriteFile_def os_Remove_def
  file_Close_def log_op_def io_Copy_def

lemmas http_defs = Header_Get_def Header_Set_def Header_Del_def set_hdr_def del_hdr_def
  WriteHeader_def rw_Write_def finish_def status_code_def sent_header_def

lemmas num_defs = Atoi_def is_digit_def digit_val_def digits_val_def FormatInt_def
  nat_dec.simps digit_char_def

lemmas demo_defs = demo_fs_def demo_fs_done_def demo_fs_empty_def demo_patch_def demo_post_def
  new_response_def

section \<open>Loading an upload\<close>

lemma loadUpload_found:
  assumes "files s uid = Some bs"
      and "\<not> faults s (OpOpen uid)" and "\<not> faults s (OpSeek uid)"
      and "\<not> faults s (OpStat (uid @ IncompleteExt))"
  shows "loadUpload s uid =
           (s\<lparr>trace := trace s @ [OpOpen uid, OpSeek uid, OpStat (uid @ IncompleteExt)]\<rparr>,
            Some \<lparr>hname = uid, hpos = length bs\<rparr>, True,
            files s (uid @ IncompleteExt) = None, int (length bs), None)"
  using assms by (simp add: loadUpload_def fs_defs Let_def split: option.splits)

lemma loadUpload_missing:
  assumes "files s uid = None" and "\<not> faults s (OpOpen uid)"
  shows "loadUpload s uid = (s\<lparr>trace := trace s @ [OpOpen uid]\<rparr>, None, False, False, 0, None)"
  using assms by (simp add: loadUpload_def fs_defs Let_def)

lemma loadUpload_files: "files (fst (loadUpload s uid)) = files s"
  by (simp add: loadUpload_def fs_defs Let_def split: option.splits prod.splits)

lemma loadUpload_incomplete:
  assumes "loadUpload s uid = (s1, file, True, False, off, None)"
  shows "\<exists>bs. files s1 uid = Some bs \<and> file = Some \<lparr>hname = uid, hpos = length bs\<rparr>"
    and "files s1 (uid @ IncompleteExt) \<noteq> None"
    and "faults s1 = faults s"
  using assms
  by (auto simp add: loadUpload_def fs_defs Let_def split: option.splits prod.splits if_splits)

text \<open>
  C8. When the file of the upload is there, \<open>loadUpload\<close> returns without an error exactly
  when none of its three calls (open, seek, stat of the marker) fails; it then reports the
  upload as existing, the length of the file as the offset, and the upload as complete if
  and only if the marker file \<open>id.incomplete\<close> is absent.
\<close>

theorem loadUpload_present:
  assumes "files s uid = Some bs"
  shows "case loadUpload s uid of
           (s', file, exists, isComplete, offset, err) \<Rightarrow>
             (err = None \<longleftrightarrow>
                \<not> faults s (OpOpen uid) \<and> \<not> faults s (OpSeek uid) \<and>
                \<not> faults s (OpStat (uid @ IncompleteExt))) \<and>
             (err = None \<longrightarrow>
                exists \<and> offset = int (length bs) \<and>
                (isComplete \<longleftrightarrow> files s (uid @ IncompleteExt) = None))"
  using assms by (auto simp add: loadUpload_def fs_defs Let_def split: option.splits)

theorem loadUpload_present_witness:
  "files demo_fs ''u1'' = Some ''abc'' \<and>
   snd (snd (loadUpload demo_fs ''u1'')) = (True, False, 3, None) \<and>
   files demo_fs_done ''u1'' = Some ''abc'' \<and>
   snd (snd (loadUpload demo_fs_done ''u1'')) = (True, True, 3, None)"
  using loadUpload_present [of demo_fs "''u1''" "''abc''"]
    loadUpload_present [of demo_fs_done "''u1''" "''abc''"]
  by (auto simp add: demo_defs IncompleteExt_def split: prod.splits)

section \<open>Appending to an upload\<close>

text \<open>
  C4. An append to an existing upload whose \<open>Upload-Offset\<close> differs from the length of
  the stored file writes nothing: the files of the directory, the marker among them,
  are as before. The response is 409 and carries the length of the stored file as
  \<open>Upload-Offset\<close> and the state of the marker as \<open>Upload-Complete\<close>.
\<close>

theorem append_offset_conflict:
  assumes "last (Split (rpath r) CHR ''/'') = uid"
      and "files s uid = Some bs"
      and "\<not> faults s (OpOpen uid)" and "\<not> faults s (OpSeek uid)"
      and "\<not> faults s (OpStat (uid @ IncompleteExt))"
      and "getUploadOffset r = (offset_client, True)"
      and "offset_client \<noteq> int (length bs)"
      and "status w = None"
  shows "files (fst (UploadAppendingHandler s r w)) = files s \<and>
         snd (snd (UploadAppendingHandler s r w)) = None \<and>
         status_code (fst (snd (UploadAppendingHandler s r w))) = Some 409 \<and>
         sent_header (fst (snd (UploadAppendingHandler s r w))) ''Upload-Offset'' =
           FormatInt (int (length bs)) \<and>
         sent_header (fst (snd (UploadAppendingHandler s r w))) ''Upload-Complete'' =
           (if files s (uid @ IncompleteExt) = None then ''?1'' else ''?0'')"
  using assms
  by (simp add: UploadAppendingHandler_def Let_def loadUpload_found setUploadHeaders_def
      http_defs file_Close_def log_op_def)

theorem append_offset_conflict_witness:
  "files demo_fs ''u1'' = Some ''abc'' \<and>
   getUploadOffset (demo_patch [''Upload-Offset'' \<mapsto> [''0'']] ''xyz'') = (0, True) \<and>
   files (fst (UploadAppendingHandler demo_fs
                 (demo_patch [''Upload-Offset'' \<mapsto> [''0'']] ''xyz'') new_response)) =
     files demo_fs \<and>
   status_code (fst (snd (UploadAppendingHandler demo_fs
                 (demo_patch [''Upload-Offset'' \<mapsto> [''0'']] ''xyz'') new_response))) =
     Some 409 \<and>
   sent_header (fst (snd (UploadAppendingHandler demo_fs
                 (demo_patch [''Upload-Offset'' \<mapsto> [''0'']] ''xyz'') new_response)))
     ''Upload-Offset'' = ''3'' \<and>
   sent_header (fst (snd (UploadAppendingHandler demo_fs
                 (demo_patch [''Upload-Offset'' \<mapsto> [''0'']] ''xyz'') new_response)))
     ''Upload-Complete'' = ''?0''"
  using append_offset_conflict
    [of "demo_patch [''Upload-Offset'' \<mapsto> [''0'']] ''xyz''" "''u1''" demo_fs "''abc''" 0
        new_response]
  by (simp add: demo_defs getUploadOffset_def Header_Get_def num_defs IncompleteExt_def)

lemma append_appended_succeeds:
  assumes "loadUpload s (last (Split (rpath r) CHR ''/'')) = (s1, file, True, False, offset_server, None)"
      and "getUploadOffset r = (offset_server, True)"
      and "\<not> faults s (OpWrite (last (Split (rpath r) CHR ''/'')))"
      and "\<not> faults s (OpRemove (last (Split (rpath r) CHR ''/'') @ IncompleteExt))"
      and "\<not> rbody_fails r"
  shows "snd (snd (UploadAppendingHandler s r w)) = None"
  using assms loadUpload_incomplete [OF assms(1)]
  by (auto simp add: UploadAppendingHandler_def Let_def fs_defs
      split: prod.splits if_splits option.splits)

text \<open>
  C2. The append handler decides in a fixed order, on what \<open>loadUpload\<close> returned and
  on the offset the client sent. An upload that does not exist is answered 404, whatever
  the headers. For an existing upload and a client offset that parses: an offset that
  differs from the server's is answered 409, also when the upload is already complete; an
  equal offset on a complete upload is answered 200 (already complete); an equal offset on
  an incomplete upload is an append, answered 201 when the handler returns nil, which it
  does whenever writing the file, removing the marker and reading the body do not fail.
\<close>

theorem append_outcome_order:
  assumes "loadUpload s (last (Split (rpath r) CHR ''/'')) =
             (s1, file, exists, complete_server, offset_server, None)"
      and "status w = None"
  shows "(\<not> exists \<longrightarrow>
            status_code (fst (snd (UploadAppendingHandler s r w))) = Some 404) \<and>
         (exists \<and> snd (getUploadOffset r) \<and> fst (getUploadOffset r) \<noteq> offset_server \<longrightarrow>
            status_code (fst (snd (UploadAppendingHandler s r w))) = Some 409) \<and>
         (exists \<and> snd (getUploadOffset r) \<and> fst (getUploadOffset r) = offset_server \<and>
          complete_server \<longrightarrow>
            status_code (fst (snd (UploadAppendingHandler s r w))) = Some 200) \<and>
         (exists \<and> snd (getUploadOffset r) \<and> fst (getUploadOffset r) = offset_server \<and>
          \<not> complete_server \<and> snd (snd (UploadAppendingHandler s r w)) = None \<longrightarrow>
            status_code (fst (snd (UploadAppendingHandler s r w))) = Some 201) \<and>
         (exists \<and> snd (getUploadOffset r) \<and> fst (getUploadOffset r) = offset_server \<and>
          \<not> complete_server \<and>
          \<not> faults s (OpWrite (last (Split (rpath r) CHR ''/''))) \<and>
          \<not> faults s (OpRemove (last (Split (rpath r) CHR ''/'') @ IncompleteExt)) \<and>
          \<not> rbody_fails r \<longrightarrow>
            snd (snd (UploadAppendingHandler s r w)) = None)"
proof -
  have order: "(\<not> exists \<longrightarrow>
            status_code (fst (snd (UploadAppendingHandler s r w))) = Some 404) \<and>
         (exists \<and> snd (getUploadOffset r) \<and> fst (getUploadOffset r) \<noteq> offset_server \<longrightarrow>
            status_code (fst (snd (UploadAppendingHandler s r w))) = Some 409) \<and>
         (exists \<and> snd (getUploadOffset r) \<and> fst (getUploadOffset r) = offset_server \<and>
          complete_server \<longrightarrow>
            status_code (fst (snd (UploadAppendingHandler s r w))) = Some 200) \<and>
         (exists \<and> snd (getUploadOffset r) \<and> fst (getUploadOffset r) = offset_server \<and>
          \<not> complete_server \<and> snd (snd (UploadAppendingHandler s r w)) = None \<longrightarrow>
            status_code (fst (snd (UploadAppendingHandler s r w))) = Some 201)"
    using assms
    by (auto simp add: UploadAppendingHandler_def Let_def setUploadHeaders_def http_defs
        split: prod.splits if_splits)
  have appended: "snd (snd (UploadAppendingHandler s r w)) = None"
    if "exists" "snd (getUploadOffset r)" "fst (getUploadOffset r) = offset_server"
       "\<not> complete_server"
       "\<not> faults s (OpWrite (last (Split (rpath r) CHR ''/'')))"
       "\<not> faults s (OpRemove (last (Split (rpath r) CHR ''/'') @ IncompleteExt))"
       "\<not> rbody_fails r"
  proof -
    from that assms(1)
    have L: "loadUpload s (last (Split (rpath r) CHR ''/'')) =
               (s1, file, True, False, offset_server, None)"
      by simp
    from that have G: "getUploadOffset r = (offset_server, True)"
      by (cases "getUploadOffset r") simp
    from append_appended_succeeds [OF L G that(5) that(6) that(7)] show ?thesis .
  qed
  from order appended show ?thesis by blast
qed

lemma demo_patch_uid: "last (Split (rpath (demo_patch h b)) CHR ''/'') = ''u1''"
  by (simp add: demo_patch_def)

theorem append_outcome_order_witness:
  "status_code (fst (snd (UploadAppendingHandler demo_fs_empty
      (demo_patch Map.empty ''xyz'') new_response))) = Some 404 \<and>
   status_code (fst (snd (UploadAppendingHandler demo_fs_done
      (demo_patch [''Upload-Offset'' \<mapsto> [''0'']] ''xyz'') new_response))) = Some 409 \<and>
   status_code (fst (snd (UploadAppendingHandler demo_fs_done
      (demo_patch [''Upload-Offset'' \<mapsto> [''3'']] ''xyz'') new_response))) = Some 200 \<and>
   status_code (fst (snd (UploadAppendingHandler demo_fs
      (demo_patch [''Upload-Offset'' \<mapsto> [''3'']] ''xyz'') new_response))) = Some 201"
proof -
  have st: "status new_response = None"
    by (simp add: new_response_def)
  have L0: "loadUpload demo_fs_empty (last (Split (rpath (demo_patch Map.empty ''xyz'')) CHR ''/'')) =
      (demo_fs_empty\<lparr>trace := [OpOpen ''u1'']\<rparr>, None, False, False, 0, None)"
    by (simp add: demo_patch_uid) (simp add: demo_defs loadUpload_def fs_defs)
  have L1: "loadUpload demo_fs_done (last (Split (rpath (demo_patch h ''xyz'')) CHR ''/'')) =
      (demo_fs_done\<lparr>trace := [OpOpen ''u1'', OpSeek ''u1'', OpStat ''u1.incomplete'']\<rparr>,
       Some \<lparr>hname = ''u1'', hpos = 3\<rparr>, True, True, 3, None)" for h
    by (simp add: demo_patch_uid) (simp add: demo_defs loadUpload_def fs_defs IncompleteExt_def)
  have L2: "loadUpload demo_fs (last (Split (rpath (demo_patch h ''xyz'')) CHR ''/'')) =
      (demo_fs\<lparr>trace := [OpOpen ''u1'', OpSeek ''u1'', OpStat ''u1.incomplete'']\<rparr>,
       Some \<lparr>hname = ''u1'', hpos = 3\<rparr>, True, False, 3, None)" for h
    by (simp add: demo_patch_uid) (simp add: demo_defs loadUpload_def fs_defs IncompleteExt_def)
  have G0: "getUploadOffset (demo_patch [''Upload-Offset'' \<mapsto> [''0'']] ''xyz'') = (0, True)"
    by (simp add: demo_defs getUploadOffset_def Header_Get_def num_defs)
  have G3: "getUploadOffset (demo_patch [''Upload-Offset'' \<mapsto> [''3'']] ''xyz'') = (3, True)"
    by (simp add: demo_defs getUploadOffset_def Header_Get_def num_defs)
  have nf: "\<not> faults demo_fs op" "\<not> rbody_fails (demo_patch h b)" for op h b
    by (simp_all add: demo_defs)
  from append_outcome_order [OF L0 st] append_outcome_order [OF L1 st]
    append_outcome_order [OF L2 st] G0 G3 nf
  show ?thesis by simp
qed

lemma append_keeps_files_when_complete:
  assumes "files s (last (Split (rpath r) CHR ''/'') @ IncompleteExt) = None"
  shows "files (fst (UploadAppendingHandler s r w)) = files s"
proof -
  obtain s1 fh ex c off e where
    L: "loadUpload s (last (Split (rpath r) CHR ''/'')) = (s1, fh, ex, c, off, e)"
    by (cases "loadUpload s (last (Split (rpath r) CHR ''/''))") auto
  from loadUpload_files [of s "last (Split (rpath r) CHR ''/'')"] L
  have F: "files s1 = files s" by simp
  have C: "c" if "ex" "e = None"
    using L that assms
    by (auto simp add: loadUpload_def fs_defs Let_def split: option.splits prod.splits if_splits)
  show ?thesis
    using L F C
    by (auto simp add: UploadAppendingHandler_def Let_def file_Close_def log_op_def
        split: prod.splits option.splits)
qed

text \<open>
  C5 as stated fails: an append to a complete upload whose \<open>Upload-Offset\<close> is not the
  length of the stored file is answered 409 (offset conflict), not 200 (already complete).
\<close>

theorem append_after_complete_counterexample:
  "files demo_fs_done ''u1'' = Some ''abc'' \<and>
   files demo_fs_done ''u1.incomplete'' = None \<and>
   getUploadOffset (demo_patch [''Upload-Offset'' \<mapsto> [''0'']] ''xyz'') = (0, True) \<and>
   status_code (fst (snd (UploadAppendingHandler demo_fs_done
      (demo_patch [''Upload-Offset'' \<mapsto> [''0'']] ''xyz'') new_response))) = Some 409 \<and>
   wbody (fst (snd (UploadAppendingHandler demo_fs_done
      (demo_patch [''Upload-Offset'' \<mapsto> [''0'']] ''xyz'') new_response))) =
     ''mismatching Upload-Offset value\<newline>''"
  by (simp add: demo_defs UploadAppendingHandler_def loadUpload_def fs_defs getUploadOffset_def
      getUploadComplete_def setUploadHeaders_def http_defs num_defs IncompleteExt_def Let_def)

text \<open>
  C5, amended. Once the marker of an upload is gone, no append changes any file of the
  directory, whatever the request and whichever calls fail: the stored bytes, their
  length and the absence of the marker stay. When the upload loads without an error and
  the \<open>Upload-Offset\<close> header parses, the answer is 200 (already complete) if the
  client's offset is the length of the stored file and 409 (offset conflict) otherwise,
  in both cases with \<open>Upload-Offset\<close> the stored length and \<open>Upload-Complete: ?1\<close>.
\<close>

theorem append_after_complete:
  assumes "last (Split (rpath r) CHR ''/'') = uid"
      and "files s (uid @ IncompleteExt) = None"
  shows "files (fst (UploadAppendingHandler s r w)) = files s \<and>
         (files s uid = Some bs \<and>
          \<not> faults s (OpOpen uid) \<and> \<not> faults s (OpSeek uid) \<and>
          \<not> faults s (OpStat (uid @ IncompleteExt)) \<and>
          snd (getUploadOffset r) \<and> status w = None \<longrightarrow>
            snd (snd (UploadAppendingHandler s r w)) = None \<and>
            status_code (fst (snd (UploadAppendingHandler s r w))) =
              Some (if fst (getUploadOffset r) = int (length bs) then 200 else 409) \<and>
            sent_header (fst (snd (UploadAppendingHandler s r w))) ''Upload-Offset'' =
              FormatInt (int (length bs)) \<and>
            sent_header (fst (snd (UploadAppendingHandler s r w))) ''Upload-Complete'' = ''?1'')"
proof -
  from assms have "files (fst (UploadAppendingHandler s r w)) = files s"
    using append_keeps_files_when_complete [of s r w] by simp
  moreover have "snd (snd (UploadAppendingHandler s r w)) = None \<and>
            status_code (fst (snd (UploadAppendingHandler s r w))) =
              Some (if fst (getUploadOffset r) = int (length bs) then 200 else 409) \<and>
            sent_header (fst (snd (UploadAppendingHandler s r w))) ''Upload-Offset'' =
              FormatInt (int (length bs)) \<and>
            sent_header (fst (snd (UploadAppendingHandler s r w))) ''Upload-Complete'' = ''?1''"
    if "files s uid = Some bs" "\<not> faults s (OpOpen uid)" "\<not> faults s (OpSeek uid)"
       "\<not> faults s (OpStat (uid @ IncompleteExt))" "snd (getUploadOffset r)" "status w = None"
    using that assms
    by (cases "getUploadOffset r")
       (simp add: UploadAppendingHandler_def Let_def loadUpload_found setUploadHeaders_def
          http_defs file_Close_def log_op_def)
  ultimately show ?thesis by blast
qed

theorem append_after_complete_witness:
  "files (fst (UploadAppendingHandler demo_fs_done
      (demo_patch [''Upload-Offset'' \<mapsto> [''3'']] ''xyz'') new_response)) = files demo_fs_done \<and>
   files demo_fs_done ''u1'' = Some ''abc'' \<and>
   status_code (fst (snd (UploadAppendingHandler demo_fs_done
      (demo_patch [''Upload-Offset'' \<mapsto> [''3'']] ''xyz'') new_response))) = Some 200 \<and>
   sent_header (fst (snd (UploadAppendingHandler demo_fs_done
      (demo_patch [''Upload-Offset'' \<mapsto> [''3'']] ''xyz'') new_response))) ''Upload-Offset'' = ''3'' \<and>
   sent_header (fst (snd (UploadAppendingHandler demo_fs_done
      (demo_patch [''Upload-Offset'' \<mapsto> [''3'']] ''xyz'') new_response))) ''Upload-Complete'' = ''?1''"
proof -
  have G: "getUploadOffset (demo_patch [''Upload-Offset'' \<mapsto> [''3'']] ''xyz'') = (3, True)"
    by (simp add: demo_defs getUploadOffset_def Header_Get_def num_defs)
  have M: "files demo_fs_done (''u1'' @ IncompleteExt) = None"
    by (simp add: demo_defs IncompleteExt_def)
  have F: "files demo_fs_done ''u1'' = Some ''abc''" "\<not> faults demo_fs_done op"
    "status new_response = None" for op
    by (simp_all add: demo_defs)
  from append_after_complete [OF demo_patch_uid M, of "[''Upload-Offset'' \<mapsto> [''3'']]" "''xyz''"
      new_response "''abc''"] G F
  show ?thesis by (simp add: num_defs)
qed

text \<open>
  C3 as stated fails. The handler loads the upload before it reads the
  \<open>Upload-Offset\<close> header. A request without the header for an upload that does not
  exist is answered 404, not 400, after the directory was asked for the file; for an
  existing upload the answer is 400, after the file was opened, its size read, the marker
  looked up and the file closed.
\<close>

theorem append_bad_offset_counterexample:
  "getUploadOffset (demo_patch Map.empty ''xyz'') = (0, False) \<and>
   status_code (fst (snd (UploadAppendingHandler demo_fs_empty
      (demo_patch Map.empty ''xyz'') new_response))) = Some 404 \<and>
   trace (fst (UploadAppendingHandler demo_fs_empty
      (demo_patch Map.empty ''xyz'') new_response)) = [OpOpen ''u1''] \<and>
   status_code (fst (snd (UploadAppendingHandler demo_fs
      (demo_patch Map.empty ''xyz'') new_response))) = Some 400 \<and>
   trace (fst (UploadAppendingHandler demo_fs
      (demo_patch Map.empty ''xyz'') new_response)) =
     [OpOpen ''u1'', OpSeek ''u1'', OpStat ''u1.incomplete'', OpClose ''u1'']"
  by (simp add: demo_defs UploadAppendingHandler_def loadUpload_def fs_defs getUploadOffset_def
      getUploadComplete_def http_defs num_defs IncompleteExt_def Let_def)

text \<open>
  C3, amended. For a PATCH request whose \<open>Upload-Offset\<close> header is absent or does not
  parse, the handler first loads the upload. When loading does not fail: if the upload
  does not exist the answer is 404 and the only call made is the attempt to open the
  file; if it exists the answer is 400, after the file was opened, sought to its end,
  the marker looked up, and the file closed. In both cases no file of the directory is
  changed and the handler returns nil.
\<close>

theorem append_bad_offset:
  assumes "last (Split (rpath r) CHR ''/'') = uid"
      and "\<not> snd (getUploadOffset r)"
      and "status w = None"
      and "\<not> faults s (OpOpen uid)" and "\<not> faults s (OpSeek uid)"
      and "\<not> faults s (OpStat (uid @ IncompleteExt))"
  shows "files (fst (UploadAppendingHandler s r w)) = files s \<and>
         snd (snd (UploadAppendingHandler s r w)) = None \<and>
         (files s uid = None \<longrightarrow>
            status_code (fst (snd (UploadAppendingHandler s r w))) = Some 404 \<and>
            trace (fst (UploadAppendingHandler s r w)) = trace s @ [OpOpen uid]) \<and>
         (files s uid \<noteq> None \<longrightarrow>
            status_code (fst (snd (UploadAppendingHandler s r w))) = Some 400 \<and>
            trace (fst (UploadAppendingHandler s r w)) =
              trace s @ [OpOpen uid, OpSeek uid, OpStat (uid @ IncompleteExt), OpClose uid])"
proof (cases "files s uid")
  case None
  with assms show ?thesis
    by (simp add: UploadAppendingHandler_def Let_def loadUpload_missing http_defs)
next
  case (Some bs)
  with assms show ?thesis
    by (cases "getUploadOffset r")
       (simp add: UploadAppendingHandler_def Let_def loadUpload_found http_defs
          file_Close_def log_op_def)
qed

theorem append_bad_offset_witness:
  "\<not> snd (getUploadOffset (demo_patch [''Upload-Offset'' \<mapsto> [''abc'']] ''xyz'')) \<and>
   files (fst (UploadAppendingHandler demo_fs
      (demo_patch [''Upload-Offset'' \<mapsto> [''abc'']] ''xyz'') new_response)) = files demo_fs \<and>
   status_code (fst (snd (UploadAppendingHandler demo_fs
      (demo_patch [''Upload-Offset'' \<mapsto> [''abc'']] ''xyz'') new_response))) = Some 400 \<and>
   trace (fst (UploadAppendingHandler demo_fs
      (demo_patch [''Upload-Offset'' \<mapsto> [''abc'']] ''xyz'') new_response)) =
     [OpOpen ''u1'', OpSeek ''u1'', OpStat ''u1.incomplete'', OpClose ''u1''] \<and>
   status_code (fst (snd (UploadAppendingHandler demo_fs_empty
      (demo_patch [''Upload-Offset'' \<mapsto> [''abc'']] ''xyz'') new_response))) = Some 404"
proof -
  have G: "\<not> snd (getUploadOffset (demo_patch [''Upload-Offset'' \<mapsto> [''abc'']] ''xyz''))"
    by (simp add: demo_defs getUploadOffset_def Header_Get_def num_defs)
  have F: "files demo_fs ''u1'' = Some ''abc''" "\<not> faults demo_fs op"
    "files demo_fs_empty ''u1'' = None" "\<not> faults demo_fs_empty op"
    "trace demo_fs = []" "status new_response = None" for op
    by (simp_all add: demo_defs)
  from append_bad_offset [OF demo_patch_uid G F(6) F(2) F(2) F(2)]
    append_bad_offset [OF demo_patch_uid G F(6) F(4) F(4) F(4)] G F
  show ?thesis by (simp add: IncompleteExt_def)
qed

lemma Atoi_negative:
  assumes "ds \<noteq> []" and "list_all is_digit ds" and "digits_val ds \<le> 2 ^ 63"
  shows "Atoi (CHR ''-'' # ds) = Some (- int (digits_val ds))"
  using assms by (simp add: Atoi_def Let_def)

text \<open>
  C10 as stated fails: \<open>strconv.Atoi\<close> rejects a negative number below \<open>-2^63\<close>, so
  such an \<open>Upload-Offset\<close> on an existing upload is answered 400.
\<close>

theorem append_negative_offset_counterexample:
  "getUploadOffset (demo_patch [''Upload-Offset'' \<mapsto> [''-9223372036854775809'']] ''xyz'') =
     (0, False) \<and>
   status_code (fst (snd (UploadAppendingHandler demo_fs
      (demo_patch [''Upload-Offset'' \<mapsto> [''-9223372036854775809'']] ''xyz'')
      new_response))) = Some 400"
  by (simp add: demo_defs UploadAppendingHandler_def loadUpload_def fs_defs getUploadOffset_def
      getUploadComplete_def http_defs num_defs IncompleteExt_def Let_def)

text \<open>
  C10, amended. When the \<open>Upload-Offset\<close> header is a minus sign followed by decimal
  digits of a value from 1 to \<open>2^63\<close>, parsing succeeds with the negative value and the
  request is never answered 400. On an existing upload that loads without an error,
  complete or not, the answer is 409 with the length of the stored file as
  \<open>Upload-Offset\<close>, and no file is changed.
\<close>

theorem append_negative_offset:
  assumes "Header_Get (rheader r) ''Upload-Offset'' = CHR ''-'' # ds"
      and "ds \<noteq> []" and "list_all is_digit ds"
      and "0 < digits_val ds" and "digits_val ds \<le> 2 ^ 63"
      and "last (Split (rpath r) CHR ''/'') = uid"
      and "status w = None"
  shows "getUploadOffset r = (- int (digits_val ds), True) \<and>
         status_code (fst (snd (UploadAppendingHandler s r w))) \<noteq> Some 400 \<and>
         (files s uid = Some bs \<and>
          \<not> faults s (OpOpen uid) \<and> \<not> faults s (OpSeek uid) \<and>
          \<not> faults s (OpStat (uid @ IncompleteExt)) \<longrightarrow>
            status_code (fst (snd (UploadAppendingHandler s r w))) = Some 409 \<and>
            sent_header (fst (snd (UploadAppendingHandler s r w))) ''Upload-Offset'' =
              FormatInt (int (length bs)) \<and>
            files (fst (UploadAppendingHandler s r w)) = files s)"
proof -
  have G: "getUploadOffset r = (- int (digits_val ds), True)"
    using assms by (simp add: getUploadOffset_def Atoi_negative)
  have N: "status_code (fst (snd (UploadAppendingHandler s r w))) \<noteq> Some 400"
    using G assms(7)
    by (auto simp add: UploadAppendingHandler_def Let_def setUploadHeaders_def http_defs
        split: prod.splits if_splits)
  have C: "status_code (fst (snd (UploadAppendingHandler s r w))) = Some 409 \<and>
            sent_header (fst (snd (UploadAppendingHandler s r w))) ''Upload-Offset'' =
              FormatInt (int (length bs)) \<and>
            files (fst (UploadAppendingHandler s r w)) = files s"
    if "files s uid = Some bs" "\<not> faults s (OpOpen uid)" "\<not> faults s (OpSeek uid)"
       "\<not> faults s (OpStat (uid @ IncompleteExt))"
    using that G assms
    by (simp add: UploadAppendingHandler_def Let_def loadUpload_found setUploadHeaders_def
          http_defs file_Close_def log_op_def)
  from G N C show ?thesis by blast
qed

theorem append_negative_offset_witness:
  "getUploadOffset (demo_patch [''Upload-Offset'' \<mapsto> [''-1'']] ''xyz'') = (- 1, True) \<and>
   files demo_fs ''u1'' = Some ''abc'' \<and>
   status_code (fst (snd (UploadAppendingHandler demo_fs
      (demo_patch [''Upload-Offset'' \<mapsto> [''-1'']] ''xyz'') new_response))) = Some 409 \<and>
   sent_header (fst (snd (UploadAppendingHandler demo_fs
      (demo_patch [''Upload-Offset'' \<mapsto> [''-1'']] ''xyz'') new_response))) ''Upload-Offset'' = ''3'' \<and>
   files (fst (UploadAppendingHandler demo_fs
      (demo_patch [''Upload-Offset'' \<mapsto> [''-1'']] ''xyz'') new_response)) = files demo_fs"
proof -
  have H: "Header_Get (rheader (demo_patch [''Upload-Offset'' \<mapsto> [''-1'']] ''xyz'')) ''Upload-Offset'' =
      CHR ''-'' # ''1''"
    by (simp add: demo_defs Header_Get_def)
  have D: "''1'' \<noteq> []" "list_all is_digit ''1''" "0 < digits_val ''1''" "digits_val ''1'' \<le> 2 ^ 63"
    "digits_val ''1'' = 1"
    by (simp_all add: num_defs)
  have F: "files demo_fs ''u1'' = Some ''abc''" "\<not> faults demo_fs op"
    "status new_response = None" for op
    by (simp_all add: demo_defs)
  from append_negative_offset [OF H D(1) D(2) D(3) D(4) demo_patch_uid F(3), of demo_fs "''abc''"] F D(5)
  show ?thesis by (simp add: num_defs)
qed

lemma IncompleteExt_nonempty [simp]: "IncompleteExt \<noteq> []"
  by (simp add: IncompleteExt_def)

lemma append_appended:
  assumes "last (Split (rpath r) CHR ''/'') = uid"
      and "files s uid = Some bs" and "files s (uid @ IncompleteExt) = Some m"
      and "\<not> faults s (OpOpen uid)" and "\<not> faults s (OpSeek uid)"
      and "\<not> faults s (OpStat (uid @ IncompleteExt))"
      and "\<not> faults s (OpWrite uid)" and "\<not> faults s (OpRemove (uid @ IncompleteExt))"
      and "\<not> rbody_fails r"
      and "getUploadOffset r = (int (length bs), True)"
      and "status w = None"
  shows "snd (snd (UploadAppendingHandler s r w)) = None"
    and "status_code (fst (snd (UploadAppendingHandler s r w))) = Some 201"
    and "files (fst (UploadAppendingHandler s r w)) uid = Some (bs @ rbody r)"
    and "files (fst (UploadAppendingHandler s r w)) (uid @ IncompleteExt) =
           (if getUploadComplete r then Some m else None)"
    and "sent_header (fst (snd (UploadAppendingHandler s r w))) ''Upload-Complete'' =
           (if getUploadComplete r then ''?0'' else ''?1'')"
    and "sent_header (fst (snd (UploadAppendingHandler s r w))) ''Upload-Offset'' =
           FormatInt (int (length bs) + int (length (rbody r)))"
  using assms
  by (simp_all add: UploadAppendingHandler_def Let_def loadUpload_found setUploadHeaders_def
      http_defs fs_defs write_at_def)

text \<open>
  C1. The handler negates the completion signal of the client: an append that carries
  \<open>Upload-Complete: ?1\<close> leaves the marker in place and is answered
  \<open>Upload-Complete: ?0\<close>, and an append without the header removes the marker and is
  answered \<open>Upload-Complete: ?1\<close>.
\<close>

theorem append_completion_signal_inverted:
  "getUploadComplete (demo_patch [''Upload-Offset'' \<mapsto> [''3''], ''Upload-Complete'' \<mapsto> [''?1'']] ''def'') \<and>
   status_code (fst (snd (UploadAppendingHandler demo_fs
      (demo_patch [''Upload-Offset'' \<mapsto> [''3''], ''Upload-Complete'' \<mapsto> [''?1'']] ''def'')
      new_response))) = Some 201 \<and>
   files (fst (UploadAppendingHandler demo_fs
      (demo_patch [''Upload-Offset'' \<mapsto> [''3''], ''Upload-Complete'' \<mapsto> [''?1'']] ''def'')
      new_response)) ''u1'' = Some ''abcdef'' \<and>
   files (fst (UploadAppendingHandler demo_fs
      (demo_patch [''Upload-Offset'' \<mapsto> [''3''], ''Upload-Complete'' \<mapsto> [''?1'']] ''def'')
      new_response)) ''u1.incomplete'' = Some [] \<and>
   sent_header (fst (snd (UploadAppendingHandler demo_fs
      (demo_patch [''Upload-Offset'' \<mapsto> [''3''], ''Upload-Complete'' \<mapsto> [''?1'']] ''def'')
      new_response))) ''Upload-Complete'' = ''?0'' \<and>
   \<not> getUploadComplete (demo_patch [''Upload-Offset'' \<mapsto> [''3'']] ''def'') \<and>
   status_code (fst (snd (UploadAppendingHandler demo_fs
      (demo_patch [''Upload-Offset'' \<mapsto> [''3'']] ''def'') new_response))) = Some 201 \<and>
   files (fst (UploadAppendingHandler demo_fs
      (demo_patch [''Upload-Offset'' \<mapsto> [''3'']] ''def'') new_response)) ''u1.incomplete'' = None \<and>
   sent_header (fst (snd (UploadAppendingHandler demo_fs
      (demo_patch [''Upload-Offset'' \<mapsto> [''3'']] ''def'') new_response))) ''Upload-Complete'' = ''?1'' \<and>
   sent_header (fst (snd (UploadAppendingHandler demo_fs
      (demo_patch [''Upload-Offset'' \<mapsto> [''3'']] ''def'') new_response))) ''Upload-Offset'' = ''6''"
  by (simp add: demo_defs UploadAppendingHandler_def loadUpload_def fs_defs getUploadOffset_def
      getUploadComplete_def setUploadHeaders_def http_defs num_defs IncompleteExt_def Let_def
      write_at_def)

lemma write_at_start: "write_at 0 data old = data @ drop (length data) old"
  by (simp add: write_at_def)

lemma create_error_free:
  assumes "snd (snd (UploadCreationHandler uploadId s r w)) = None"
  shows "\<not> faults s (OpOpen uploadId) \<and> \<not> faults s (OpWriteFile (uploadId @ IncompleteExt)) \<and>
         \<not> faults s (OpWrite uploadId) \<and> \<not> faults s (OpSeek uploadId) \<and> \<not> rbody_fails r \<and>
         (getUploadComplete r \<longrightarrow> \<not> faults s (OpRemove (uploadId @ IncompleteExt)))"
  using assms
  by (simp add: UploadCreationHandler_def Let_def fs_defs split: option.splits if_splits)

lemma create_eval:
  assumes "\<not> faults s (OpOpen uploadId)" and "\<not> faults s (OpWriteFile (uploadId @ IncompleteExt))"
      and "\<not> faults s (OpWrite uploadId)" and "\<not> faults s (OpSeek uploadId)"
      and "\<not> rbody_fails r"
      and "getUploadComplete r \<longrightarrow> \<not> faults s (OpRemove (uploadId @ IncompleteExt))"
  shows "snd (snd (UploadCreationHandler uploadId s r w)) = None"
    and "files (fst (UploadCreationHandler uploadId s r w)) uploadId =
           Some (write_at 0 (rbody r) (case files s uploadId of None \<Rightarrow> [] | Some old \<Rightarrow> old))"
    and "files (fst (UploadCreationHandler uploadId s r w)) (uploadId @ IncompleteExt) =
           (if getUploadComplete r then None else Some [])"
    and "hdr (fst (snd (UploadCreationHandler uploadId s r w))) ''Upload-Offset'' =
           Some [FormatInt (int (length (write_at 0 (rbody r)
                   (case files s uploadId of None \<Rightarrow> [] | Some old \<Rightarrow> old))))]"
    and "hdr (fst (snd (UploadCreationHandler uploadId s r w))) ''Upload-Complete'' =
           Some [if getUploadComplete r then ''?1'' else ''?0'']"
    and "hdr (fst (snd (UploadCreationHandler uploadId s r w))) ''Location'' =
           Some [getUrl r @ uploadId]"
    and "status w = None \<Longrightarrow> status (fst (snd (UploadCreationHandler uploadId s r w))) = None"
  using assms
  by (simp_all add: UploadCreationHandler_def Let_def fs_defs setUploadHeaders_def
      Header_Set_def Header_Del_def set_hdr_def del_hdr_def WriteHeader_def
      split: option.splits)

lemma create_trace:
  assumes "snd (snd (UploadCreationHandler uploadId s r w)) = None"
  shows "trace (fst (UploadCreationHandler uploadId s r w)) =
           trace s @ [OpOpen uploadId, OpWriteFile (uploadId @ IncompleteExt), OpWrite uploadId,
                      OpSeek uploadId] @
           (if getUploadComplete r then [OpRemove (uploadId @ IncompleteExt)] else []) @
           [OpClose uploadId]"
  using create_error_free [OF assms]
  by (simp add: UploadCreationHandler_def Let_def fs_defs split: option.splits)

text \<open>
  C6. A create request succeeds whenever no call on the directory and no read of the
  body fails. Whenever it succeeds, the \<open>Upload-Offset\<close> it reports is the length of the
  file stored under the new id after the body was copied (for an id that was free, the
  file is the body); \<open>Upload-Complete\<close> is \<open>?1\<close> exactly when the request carried
  \<open>Upload-Complete: ?1\<close>, and exactly then the marker file is gone. The calls made
  show where the offset comes from: the size is read (seek to the end) after the body was
  written, and the marker is removed after that.
\<close>

theorem create_reports_stored_length:
  "(\<not> faults s (OpOpen uploadId) \<and> \<not> faults s (OpWriteFile (uploadId @ IncompleteExt)) \<and>
    \<not> faults s (OpWrite uploadId) \<and> \<not> faults s (OpSeek uploadId) \<and>
    \<not> faults s (OpRemove (uploadId @ IncompleteExt)) \<and> \<not> rbody_fails r \<longrightarrow>
      snd (snd (UploadCreationHandler uploadId s r w)) = None) \<and>
   (snd (snd (UploadCreationHandler uploadId s r w)) = None \<longrightarrow>
      (\<exists>bs. files (fst (UploadCreationHandler uploadId s r w)) uploadId = Some bs \<and>
            Header_Get (hdr (fst (snd (UploadCreationHandler uploadId s r w)))) ''Upload-Offset'' =
              FormatInt (int (length bs)) \<and>
            (files s uploadId = None \<longrightarrow> bs = rbody r)) \<and>
      Header_Get (hdr (fst (snd (UploadCreationHandler uploadId s r w)))) ''Upload-Complete'' =
        (if getUploadComplete r then ''?1'' else ''?0'') \<and>
      (files (fst (UploadCreationHandler uploadId s r w)) (uploadId @ IncompleteExt) = None
         \<longleftrightarrow> getUploadComplete r) \<and>
      trace (fst (UploadCreationHandler uploadId s r w)) =
        trace s @ [OpOpen uploadId, OpWriteFile (uploadId @ IncompleteExt), OpWrite uploadId,
                   OpSeek uploadId] @
        (if getUploadComplete r then [OpRemove (uploadId @ IncompleteExt)] else []) @
        [OpClose uploadId])"
proof (intro conjI impI)
  assume "\<not> faults s (OpOpen uploadId) \<and> \<not> faults s (OpWriteFile (uploadId @ IncompleteExt)) \<and>
    \<not> faults s (OpWrite uploadId) \<and> \<not> faults s (OpSeek uploadId) \<and>
    \<not> faults s (OpRemove (uploadId @ IncompleteExt)) \<and> \<not> rbody_fails r"
  then show "snd (snd (UploadCreationHandler uploadId s r w)) = None"
    by (simp add: create_eval(1))
next
  assume ok: "snd (snd (UploadCreationHandler uploadId s r w)) = None"
  note nf = create_error_free [OF ok]
  note ev = create_eval [of s uploadId r w]
  from nf ev(2) ev(4)
  show "\<exists>bs. files (fst (UploadCreationHandler uploadId s r w)) uploadId = Some bs \<and>
            Header_Get (hdr (fst (snd (UploadCreationHandler uploadId s r w)))) ''Upload-Offset'' =
              FormatInt (int (length bs)) \<and>
            (files s uploadId = None \<longrightarrow> bs = rbody r)"
    by (simp add: Header_Get_def write_at_start)
  from nf ev(5)
  show "Header_Get (hdr (fst (snd (UploadCreationHandler uploadId s r w)))) ''Upload-Complete'' =
        (if getUploadComplete r then ''?1'' else ''?0'')"
    by (simp add: Header_Get_def)
  from nf ev(3)
  show "(files (fst (UploadCreationHandler uploadId s r w)) (uploadId @ IncompleteExt) = None)
         = getUploadComplete r"
    by simp
  from create_trace [OF ok]
  show "trace (fst (UploadCreationHandler uploadId s r w)) =
        trace s @ [OpOpen uploadId, OpWriteFile (uploadId @ IncompleteExt), OpWrite uploadId,
                   OpSeek uploadId] @
        (if getUploadComplete r then [OpRemove (uploadId @ IncompleteExt)] else []) @
        [OpClose uploadId]" .
qed

theorem create_reports_stored_length_witness:
  "snd (snd (UploadCreationHandler ''u2'' demo_fs
      (demo_post [''Upload-Complete'' \<mapsto> [''?1'']] ''hello'') new_response)) = None \<and>
   files (fst (UploadCreationHandler ''u2'' demo_fs
      (demo_post [''Upload-Complete'' \<mapsto> [''?1'']] ''hello'') new_response)) ''u2'' = Some ''hello'' \<and>
   Header_Get (hdr (fst (snd (UploadCreationHandler ''u2'' demo_fs
      (demo_post [''Upload-Complete'' \<mapsto> [''?1'']] ''hello'') new_response)))) ''Upload-Offset'' = ''5'' \<and>
   Header_Get (hdr (fst (snd (UploadCreationHandler ''u2'' demo_fs
      (demo_post [''Upload-Complete'' \<mapsto> [''?1'']] ''hello'') new_response)))) ''Upload-Complete'' = ''?1'' \<and>
   files (fst (UploadCreationHandler ''u2'' demo_fs
      (demo_post [''Upload-Complete'' \<mapsto> [''?1'']] ''hello'') new_response)) ''u2.incomplete'' = None \<and>
   trace (fst (UploadCreationHandler ''u2'' demo_fs
      (demo_post [''Upload-Complete'' \<mapsto> [''?1'']] ''hello'') new_response)) =
     [OpOpen ''u2'', OpWriteFile ''u2.incomplete'', OpWrite ''u2'', OpSeek ''u2'',
      OpRemove ''u2.incomplete'', OpClose ''u2'']"
proof -
  have F: "\<not> faults demo_fs op" "\<not> rbody_fails (demo_post h b)" "files demo_fs ''u2'' = None"
    "getUploadComplete (demo_post [''Upload-Complete'' \<mapsto> [''?1'']] ''hello'')"
    "rbody (demo_post h b) = b" "trace demo_fs = []" for op h b
    by (simp_all add: demo_defs getUploadComplete_def Header_Get_def)
  from create_reports_stored_length [of demo_fs "''u2''"
      "demo_post [''Upload-Complete'' \<mapsto> [''?1'']] ''hello''" new_response] F
  show ?thesis by (auto simp add: IncompleteExt_def num_defs)
qed

lemma serve_post:
  assumes "rmethod r = ''POST''"
  shows "serve uploadId s r =
           (fst (UploadCreationHandler uploadId s r (cors_headers new_response)),
            (if snd (snd (UploadCreationHandler uploadId s r (cors_headers new_response))) = None
             then finish (fst (snd (UploadCreationHandler uploadId s r (cors_headers new_response))))
             else fst (snd (UploadCreationHandler uploadId s r (cors_headers new_response)))),
            snd (snd (UploadCreationHandler uploadId s r (cors_headers new_response))))"
  using assms by (simp add: serve_def ServeHTTP_def Let_def split: prod.splits)

lemma cors_headers_status: "status (cors_headers new_response) = None"
  by (simp add: cors_headers_def set_hdr_def new_response_def)

text \<open>
  C7. A POST request that the handler serves without an error is answered with status
  200: the handler writes no status of its own, apart from the interim 104, so the
  response goes out with the status of a finished handler, which is of the same class
  (2xx) as 201. The response carries \<open>Location\<close> with the URL of the request followed by
  the new id, \<open>Upload-Offset\<close> with the length of the stored file, and
  \<open>Upload-Complete\<close> with \<open>?1\<close> when the marker is gone and \<open>?0\<close> when it is there.
\<close>

theorem create_response:
  assumes "rmethod r = ''POST''"
      and "snd (snd (serve uploadId s r)) = None"
  shows "(\<exists>c. status_code (fst (snd (serve uploadId s r))) = Some c \<and> c = 200 \<and>
              status_class c = status_class 201) \<and>
         sent_header (fst (snd (serve uploadId s r))) ''Location'' = getUrl r @ uploadId \<and>
         (\<exists>bs. files (fst (serve uploadId s r)) uploadId = Some bs \<and>
               sent_header (fst (snd (serve uploadId s r))) ''Upload-Offset'' =
                 FormatInt (int (length bs))) \<and>
         sent_header (fst (snd (serve uploadId s r))) ''Upload-Complete'' =
           (if files (fst (serve uploadId s r)) (uploadId @ IncompleteExt) = None
            then ''?1'' else ''?0'')"
proof -
  let ?h = "UploadCreationHandler uploadId s r (cors_headers new_response)"
  from assms have ok: "snd (snd ?h) = None"
    by (simp add: serve_post)
  note nf = create_error_free [OF ok]
  note ev = create_eval [of s uploadId r "cors_headers new_response"]
  from nf ev(7) cors_headers_status have st: "status (fst (snd ?h)) = None"
    by simp
  have S: "serve uploadId s r = (fst ?h, finish (fst (snd ?h)), None)"
    using assms(1) ok by (simp add: serve_post)
  have sent: "sent_header (finish (fst (snd ?h))) k = Header_Get (hdr (fst (snd ?h))) k" for k
    using st by (simp add: sent_header_def finish_def WriteHeader_def)
  have code: "status_code (finish (fst (snd ?h))) = Some 200"
    using st by (simp add: status_code_def finish_def WriteHeader_def)
  from nf ev(2) ev(3) ev(4) ev(5) ev(6) show ?thesis
    unfolding S by (simp add: sent code Header_Get_def status_class_def)
qed

theorem create_response_witness:
  "rmethod (demo_post [''Upload-Draft-Interop-Version'' \<mapsto> [''4'']] ''hello'') = ''POST'' \<and>
   snd (snd (serve ''u2'' demo_fs
      (demo_post [''Upload-Draft-Interop-Version'' \<mapsto> [''4'']] ''hello''))) = None \<and>
   status_code (fst (snd (serve ''u2'' demo_fs
      (demo_post [''Upload-Draft-Interop-Version'' \<mapsto> [''4'']] ''hello'')))) = Some 200 \<and>
   sent_header (fst (snd (serve ''u2'' demo_fs
      (demo_post [''Upload-Draft-Interop-Version'' \<mapsto> [''4'']] ''hello'')))) ''Location'' =
     ''http://example.org/files/u2'' \<and>
   files (fst (serve ''u2'' demo_fs
      (demo_post [''Upload-Draft-Interop-Version'' \<mapsto> [''4'']] ''hello''))) ''u2'' = Some ''hello'' \<and>
   sent_header (fst (snd (serve ''u2'' demo_fs
      (demo_post [''Upload-Draft-Interop-Version'' \<mapsto> [''4'']] ''hello'')))) ''Upload-Offset'' = ''5'' \<and>
   sent_header (fst (snd (serve ''u2'' demo_fs
      (demo_post [''Upload-Draft-Interop-Version'' \<mapsto> [''4'']] ''hello'')))) ''Upload-Complete'' = ''?0''"
proof -
  let ?r = "demo_post [''Upload-Draft-Interop-Version'' \<mapsto> [''4'']] ''hello''"
  have M: "rmethod ?r = ''POST''"
    by (simp add: demo_defs)
  have F: "\<not> faults demo_fs op" "\<not> rbody_fails ?r" "files demo_fs ''u2'' = None"
    "\<not> getUploadComplete ?r" "rbody ?r = ''hello''" for op
    by (simp_all add: demo_defs getUploadComplete_def Header_Get_def)
  have ok: "snd (snd (serve ''u2'' demo_fs ?r)) = None"
    using F by (simp add: serve_post [OF M] create_eval(1))
  have U: "getUrl ?r = ''http://example.org/files/''"
    by (simp add: demo_defs getUrl_def HasSuffix_def)
  have Fi: "files (fst (serve ''u2'' demo_fs ?r)) ''u2'' = Some ''hello''"
    "files (fst (serve ''u2'' demo_fs ?r)) (''u2'' @ IncompleteExt) = Some []"
    using F create_eval(2,3) [of demo_fs "''u2''" ?r "cors_headers new_response"]
    by (simp_all add: serve_post [OF M] create_eval(1) write_at_start)
  from create_response [OF M ok] M ok U Fi
  show ?thesis by (simp add: num_defs)
qed

text \<open>
  C9 as stated fails: creating an upload under an id that is already taken does not fail.
  Here the id \<open>u1\<close> holds a complete upload \<open>abc\<close>; the create request with body \<open>xy\<close>
  returns nil, overwrites the first two bytes, puts the marker back and reports offset 3.
\<close>

theorem create_existing_id_counterexample:
  "files demo_fs_done ''u1'' = Some ''abc'' \<and>
   snd (snd (UploadCreationHandler ''u1'' demo_fs_done (demo_post Map.empty ''xy'')
      new_response)) = None \<and>
   snd (snd (os_OpenFile demo_fs_done ''u1'' True)) = None \<and>
   files (fst (UploadCreationHandler ''u1'' demo_fs_done (demo_post Map.empty ''xy'')
      new_response)) ''u1'' = Some ''xyc'' \<and>
   files (fst (UploadCreationHandler ''u1'' demo_fs_done (demo_post Map.empty ''xy'')
      new_response)) ''u1.incomplete'' = Some [] \<and>
   Header_Get (hdr (fst (snd (UploadCreationHandler ''u1'' demo_fs_done
      (demo_post Map.empty ''xy'') new_response)))) ''Upload-Offset'' = ''3''"
  by (simp add: demo_defs UploadCreationHandler_def fs_defs getUploadComplete_def getUrl_def
      HasSuffix_def setUploadHeaders_def http_defs num_defs IncompleteExt_def InteropVersion_def
      Let_def write_at_def)

text \<open>
  C9, amended. Allocating the byte storage (\<open>os.OpenFile\<close> with \<open>O_WRONLY|O_CREATE\<close>)
  fails exactly when the call itself fails on the storage medium, whether or not the id
  is taken. When the id is taken and nothing fails, the create request returns nil and
  reuses the existing file: the body overwrites it from its start, the bytes beyond the
  length of the body stay, and the marker is written anew (and removed again when the
  request signals completion).
\<close>

theorem create_existing_id:
  assumes "files s uploadId = Some old"
  shows "(snd (snd (os_OpenFile s uploadId True)) \<noteq> None \<longleftrightarrow> faults s (OpOpen uploadId)) \<and>
         (\<not> faults s (OpOpen uploadId) \<and> \<not> faults s (OpWriteFile (uploadId @ IncompleteExt)) \<and>
          \<not> faults s (OpWrite uploadId) \<and> \<not> faults s (OpSeek uploadId) \<and>
          \<not> faults s (OpRemove (uploadId @ IncompleteExt)) \<and> \<not> rbody_fails r \<longrightarrow>
            snd (snd (UploadCreationHandler uploadId s r w)) = None \<and>
            files (fst (UploadCreationHandler uploadId s r w)) uploadId =
              Some (rbody r @ drop (length (rbody r)) old) \<and>
            files (fst (UploadCreationHandler uploadId s r w)) (uploadId @ IncompleteExt) =
              (if getUploadComplete r then None else Some []))"
proof -
  have A: "(snd (snd (os_OpenFile s uploadId True)) \<noteq> None) = faults s (OpOpen uploadId)"
    using assms by (simp add: os_OpenFile_def Let_def)
  have B: "snd (snd (UploadCreationHandler uploadId s r w)) = None \<and>
            files (fst (UploadCreationHandler uploadId s r w)) uploadId =
              Some (rbody r @ drop (length (rbody r)) old) \<and>
            files (fst (UploadCreationHandler uploadId s r w)) (uploadId @ IncompleteExt) =
              (if getUploadComplete r then None else Some [])"
    if "\<not> faults s (OpOpen uploadId)" "\<not> faults s (OpWriteFile (uploadId @ IncompleteExt))"
       "\<not> faults s (OpWrite uploadId)" "\<not> faults s (OpSeek uploadId)"
       "\<not> faults s (OpRemove (uploadId @ IncompleteExt))" "\<not> rbody_fails r"
    using that assms create_eval(1,2,3) [of s uploadId r w]
    by (simp add: write_at_start)
  from A B show ?thesis by blast
qed

theorem create_existing_id_witness:
  "files demo_fs_done ''u1'' = Some ''abc'' \<and>
   snd (snd (os_OpenFile demo_fs_done ''u1'' True)) = None \<and>
   snd (snd (UploadCreationHandler ''u1'' demo_fs_done
      (demo_post [''Upload-Complete'' \<mapsto> [''?1'']] ''xy'') new_response)) = None \<and>
   files (fst (UploadCreationHandler ''u1'' demo_fs_done
      (demo_post [''Upload-Complete'' \<mapsto> [''?1'']] ''xy'') new_response)) ''u1'' = Some ''xyc'' \<and>
   files (fst (UploadCreationHandler ''u1'' demo_fs_done
      (demo_post [''Upload-Complete'' \<mapsto> [''?1'']] ''xy'') new_response)) ''u1.incomplete'' = None"
proof -
  have F: "files demo_fs_done ''u1'' = Some ''abc''" "\<not> faults demo_fs_done op"
    "\<not> rbody_fails (demo_post h b)" "rbody (demo_post h b) = b"
    "getUploadComplete (demo_post [''Upload-Complete'' \<mapsto> [''?1'']] ''xy'')" for op h b
    by (simp_all add: demo_defs getUploadComplete_def Header_Get_def)
  from create_existing_id [OF F(1), of "demo_post [''Upload-Complete'' \<mapsto> [''?1'']] ''xy''"
      new_response] F
  show ?thesis by (auto simp add: IncompleteExt_def)
qed

end
